theory Spec2Isabelle
  imports Main
begin

section \<open>JavaScript values\<close>

text \<open>
  The server is TypeScript whose run-time values all come from parsed JSON (tool
  arguments, response bodies) or from reading a property that is not there. A value is
  therefore \<open>undefined\<close>, \<open>null\<close>, a boolean, a number, a string, an array or a plain
  object. An integral number (of magnitude below \<open>10\<^sup>2\<^sup>1\<close>, whose string form is the plain
  decimal) is \<open>JNum\<close>; any other number is \<open>JFraction\<close>, held as the decimal text
  JavaScript prints for it, and is never zero. Strings are well-formed text, held as
  its UTF-8 bytes. An object is the list of its own properties in insertion order, with
  distinct keys.
\<close>

datatype jsval =
    JUndefined
  | JNull
  | JBool bool
  | JNum int
  | JFraction string
  | JStr string
  | JArr "jsval list"
  | JObj "(string \<times> jsval) list"

text \<open>Truthiness, as \<^verbatim>\<open>!x\<close>, \<^verbatim>\<open>x ? a : b\<close> and \<^verbatim>\<open>x || y\<close> test it.\<close>

fun truthy :: "jsval \<Rightarrow> bool" where
  "truthy JUndefined = False"
| "truthy JNull = False"
| "truthy (JBool b) = b"
| "truthy (JNum n) = (n \<noteq> 0)"
| "truthy (JFraction t) = True"
| "truthy (JStr s) = (s \<noteq> [])"
| "truthy (JArr xs) = True"
| "truthy (JObj kvs) = True"

text \<open>
  What a \<^verbatim>\<open>throw\<close> carries: an \<^verbatim>\<open>Error\<close> instance with its message, the transport
  library's error (itself an \<^verbatim>\<open>Error\<close> instance) with the body of the response when one
  arrived and the library's own message, or any other value.
\<close>

datatype thrown =
    ErrorObj string
  | AxiosError "jsval option" string
  | NonError jsval

subsection \<open>Decimal and hexadecimal digits\<close>

definition digit_char :: "nat \<Rightarrow> char" where
  "digit_char d = ''0123456789ABCDEF'' ! (d mod 16)"

function show_nat :: "nat \<Rightarrow> string" where
  "show_nat n = (if n < 10 then [digit_char n] else show_nat (n div 10) @ [digit_char (n mod 10)])"
  by pat_completeness auto
termination
  by (relation "measure (\<lambda>n. n)") auto

declare show_nat.simps [simp del]

definition show_int :: "int \<Rightarrow> string" where
  "show_int i = (if i < 0 then CHR ''-'' # show_nat (nat (- i)) else show_nat (nat i))"

subsection \<open>String conversion\<close>

text \<open>
  The conversion a template literal, \<^verbatim>\<open>encodeURIComponent\<close> and \<^verbatim>\<open>new Error\<close> apply
  to their argument. An array joins its elements with commas, \<open>undefined\<close> and \<open>null\<close>
  elements giving the empty string; a plain object is \<^verbatim>\<open>[object Object]\<close>.
\<close>

fun join :: "string \<Rightarrow> string list \<Rightarrow> string" where
  "join sep [] = []"
| "join sep [s] = s"
| "join sep (s # t # ss) = s @ sep @ join sep (t # ss)"

fun ToString :: "jsval \<Rightarrow> string" where
  "ToString JUndefined = ''undefined''"
| "ToString JNull = ''null''"
| "ToString (JBool b) = (if b then ''true'' else ''false'')"
| "ToString (JNum n) = show_int n"
| "ToString (JFraction t) = t"
| "ToString (JStr s) = s"
| "ToString (JArr xs) =
     join '','' (map (\<lambda>x. if x = JUndefined \<or> x = JNull then [] else ToString x) xs)"
| "ToString (JObj kvs) = ''[object Object]''"

subsection \<open>Property access\<close>

text \<open>
  \<^verbatim>\<open>x.k\<close> throws a \<^verbatim>\<open>TypeError\<close> when \<open>x\<close> is \<open>undefined\<close> or \<open>null\<close> (the message is
  the one Node prints). On a plain object it is the own property, or \<open>undefined\<close>. The
  program reads only the names \<^verbatim>\<open>data\<close>, \<^verbatim>\<open>error\<close>, \<^verbatim>\<open>created\<close>, \<^verbatim>\<open>updates\<close>, \<^verbatim>\<open>graph\<close>,
  \<^verbatim>\<open>patterns\<close>, \<^verbatim>\<open>path\<close> and the argument fields, none of which a string, a number, a
  boolean or an array has, so there it is \<open>undefined\<close> too.
\<close>

definition read_prop :: "jsval \<Rightarrow> string \<Rightarrow> thrown + jsval" where
  "read_prop x k =
     (case x of
        JUndefined \<Rightarrow>
          Inl (ErrorObj (''Cannot read properties of undefined (reading '' @ [CHR 0x27] @ k @ [CHR 0x27] @ '')''))
      | JNull \<Rightarrow>
          Inl (ErrorObj (''Cannot read properties of null (reading '' @ [CHR 0x27] @ k @ [CHR 0x27] @ '')''))
      | JObj kvs \<Rightarrow> Inr (case map_of kvs k of None \<Rightarrow> JUndefined | Some v \<Rightarrow> v)
      | _ \<Rightarrow> Inr JUndefined)"

text \<open>\<^verbatim>\<open>x?.k\<close>: \<open>undefined\<close> when \<open>x\<close> is \<open>undefined\<close> or \<open>null\<close>, and never throws.\<close>

definition read_prop_opt :: "jsval \<Rightarrow> string \<Rightarrow> jsval" where
  "read_prop_opt x k =
     (case x of
        JObj kvs \<Rightarrow> (case map_of kvs k of None \<Rightarrow> JUndefined | Some v \<Rightarrow> v)
      | _ \<Rightarrow> JUndefined)"

subsection \<open>\<^verbatim>\<open>encodeURIComponent\<close>\<close>

text \<open>
  Letters, digits and \<^verbatim>\<open>- _ . ! ~ * ' ( )\<close> stay; every other byte of the UTF-8 text
  becomes \<^verbatim>\<open>%XX\<close> with upper-case hexadecimal digits.
\<close>

definition uri_unreserved :: "char \<Rightarrow> bool" where
  "uri_unreserved c \<longleftrightarrow>
     c \<in> set (''ABCDEFGHIJKLMNOPQRSTUVWXYZabcdefghijklmnopqrstuvwxyz0123456789-_.!~*()'' @ [CHR 0x27])"

definition percent_encode :: "char \<Rightarrow> string" where
  "percent_encode c =
     (if uri_unreserved c then [c]
      else [CHR ''%'', digit_char (of_char c div 16), digit_char (of_char c mod 16)])"

definition encodeURIComponent :: "jsval \<Rightarrow> string" where
  "encodeURIComponent x = concat (map percent_encode (ToString x))"

subsection \<open>\<^verbatim>\<open>JSON.stringify(value, null, 2)\<close>\<close>

definition hex_lower :: "nat \<Rightarrow> char" where
  "hex_lower d = ''0123456789abcdef'' ! (d mod 16)"

definition json_escape :: "char \<Rightarrow> string" where
  "json_escape c =
     (if c = CHR 0x22 then [CHR 0x5C, CHR 0x22]
      else if c = CHR 0x5C then [CHR 0x5C, CHR 0x5C]
      else if c = CHR 0x08 then [CHR 0x5C, CHR ''b'']
      else if c = CHR 0x09 then [CHR 0x5C, CHR ''t'']
      else if c = CHR 0x0A then [CHR 0x5C, CHR ''n'']
      else if c = CHR 0x0C then [CHR 0x5C, CHR ''f'']
      else if c = CHR 0x0D then [CHR 0x5C, CHR ''r'']
      else if (of_char c :: nat) < 32
        then [CHR 0x5C, CHR ''u'', CHR ''0'', CHR ''0'', hex_lower (of_char c div 16), hex_lower (of_char c mod 16)]
      else [c])"

definition json_quote :: "string \<Rightarrow> string" where
  "json_quote s = [CHR 0x22] @ concat (map json_escape s) @ [CHR 0x22]"

text \<open>
  The serialisation with a gap of two spaces. \<open>undefined\<close> has no text: at the top the
  result is \<open>undefined\<close> (here \<open>None\<close>), in an array it is written \<^verbatim>\<open>null\<close>, and a property
  holding it is left out. \<open>ind\<close> is the indentation of the enclosing line.
\<close>

fun serialize :: "string \<Rightarrow> jsval \<Rightarrow> string option" where
  "serialize ind JUndefined = None"
| "serialize ind JNull = Some ''null''"
| "serialize ind (JBool b) = Some (if b then ''true'' else ''false'')"
| "serialize ind (JNum n) = Some (show_int n)"
| "serialize ind (JFraction t) = Some t"
| "serialize ind (JStr s) = Some (json_quote s)"
| "serialize ind (JArr xs) =
     (let partial = map (\<lambda>x. case serialize (ind @ ''  '') x of None \<Rightarrow> ''null'' | Some t \<Rightarrow> t) xs
      in Some (if partial = [] then ''[]''
               else ''['' @ [CHR 0x0A] @ ind @ ''  ''
                    @ join ('','' @ [CHR 0x0A] @ ind @ ''  '') partial
                    @ [CHR 0x0A] @ ind @ '']''))"
| "serialize ind (JObj kvs) =
     (let partial = concat (map (\<lambda>kv. case serialize (ind @ ''  '') (snd kv) of
                                          None \<Rightarrow> []
                                        | Some t \<Rightarrow> [json_quote (fst kv) @ '': '' @ t]) kvs)
      in Some (if partial = [] then ''{}''
               else ''{'' @ [CHR 0x0A] @ ind @ ''  ''
                    @ join ('','' @ [CHR 0x0A] @ ind @ ''  '') partial
                    @ [CHR 0x0A] @ ind @ ''}''))"

definition JSON_stringify :: "jsval \<Rightarrow> string option" where
  "JSON_stringify v = serialize [] v"

section \<open>Configuration and the HTTP client\<close>

text \<open>
  The two environment variables the module reads when it is loaded; \<open>None\<close> is a
  variable that is not set.
\<close>

record environment =
  MEMORY_API_KEY :: "string option"
  MEMORY_API_URL :: "string option"

text \<open>An environment variable as a value: \<open>undefined\<close> when not set.\<close>

definition env_value :: "string option \<Rightarrow> jsval" where
  "env_value v = (case v of None \<Rightarrow> JUndefined | Some s \<Rightarrow> JStr s)"

text \<open>\<^verbatim>\<open>const API_BASE_URL = process.env.MEMORY_API_URL || 'http://localhost:3000'\<close>\<close>

definition API_BASE_URL :: "environment \<Rightarrow> string" where
  "API_BASE_URL env =
     (if truthy (env_value (MEMORY_API_URL env)) then ToString (env_value (MEMORY_API_URL env))
      else ''http://localhost:3000'')"

text \<open>
  The client \<^verbatim>\<open>axios.create\<close> returns holds the base address and the headers it was
  given; a request is that configuration with a method (\<open>verb\<close>), a path and an optional body.
\<close>

datatype http_method = GET | POST | DELETE

record AxiosInstance =
  baseURL :: string
  headers :: "(string \<times> string) list"

record request = AxiosInstance +
  verb :: http_method
  url :: string
  data :: "jsval option"

text \<open>
  The constructor of \<^verbatim>\<open>KnowledgeGraphManager\<close>, given the two constants of the module.
\<close>

definition KnowledgeGraphManager :: "string \<Rightarrow> string \<Rightarrow> AxiosInstance" where
  "KnowledgeGraphManager api_key base_url =
     \<lparr> baseURL = base_url,
       headers = [(''Authorization'', ''Bearer '' @ api_key),
                  (''Content-Type'', ''application/json'')] \<rparr>"

subsection \<open>The network and computations that use it\<close>

text \<open>
  The remote service and the transport library together: a request either fails with a
  thrown value or yields the body of the response (\<^verbatim>\<open>response.data\<close>). A computation
  returns what it throws or yields, and the requests it sent, in order.
\<close>

type_synonym network = "request \<Rightarrow> thrown + jsval"

type_synonym 'a io = "(thrown + 'a) \<times> request list"

definition ret :: "thrown + 'a \<Rightarrow> 'a io" where
  "ret r = (r, [])"

definition and_then :: "'a io \<Rightarrow> ('a \<Rightarrow> 'b io) \<Rightarrow> 'b io" where
  "and_then m f =
     (case m of
        (Inl e, log) \<Rightarrow> (Inl e, log)
      | (Inr v, log) \<Rightarrow> (case f v of (r, log') \<Rightarrow> (r, log @ log')))"

text \<open>\<^verbatim>\<open>try { ... } catch (error) { h(error) }\<close> where the handler yields a computation.\<close>

definition try_catch :: "'a io \<Rightarrow> (thrown \<Rightarrow> 'a io) \<Rightarrow> 'a io" where
  "try_catch m h =
     (case m of
        (Inl e, log) \<Rightarrow> (case h e of (r, log') \<Rightarrow> (r, log @ log'))
      | (Inr v, log) \<Rightarrow> (Inr v, log))"

text \<open>\<^verbatim>\<open>this.api.get(url)\<close>, \<^verbatim>\<open>this.api.post(url, data)\<close>, \<^verbatim>\<open>this.api.delete(url, {data})\<close>.\<close>

definition send :: "AxiosInstance \<Rightarrow> network \<Rightarrow> http_method \<Rightarrow> string \<Rightarrow> jsval option \<Rightarrow> jsval io" where
  "send api net m u d =
     (let r = \<lparr> baseURL = baseURL api, headers = headers api, verb = m, url = u, data = d \<rparr>
      in (net r, [r]))"

section \<open>The facade: \<^verbatim>\<open>KnowledgeGraphManager\<close>\<close>

text \<open>
  \<^verbatim>\<open>handleError\<close> never returns: the result is the value it throws.
\<close>

definition handleError :: "thrown \<Rightarrow> thrown" where
  "handleError error =
     (case error of
        AxiosError response message \<Rightarrow>
          (let apiError = (case response of None \<Rightarrow> JUndefined | Some body \<Rightarrow> body);
               e = read_prop_opt apiError ''error''
           in ErrorObj (ToString (if truthy e then e else JStr message)))
      | ErrorObj message \<Rightarrow> ErrorObj message
      | NonError v \<Rightarrow> ErrorObj ''An unknown error occurred'')"

text \<open>Every method is \<^verbatim>\<open>try { ... } catch (error) { this.handleError(error) }\<close>.\<close>

definition guarded :: "'a io \<Rightarrow> 'a io" where
  "guarded m = try_catch m (\<lambda>error. ret (Inl (handleError error)))"

text \<open>\<^verbatim>\<open>response.data.data\<close> and \<^verbatim>\<open>response.data.data.k\<close>, from the body of the response.\<close>

definition payload :: "jsval \<Rightarrow> jsval io" where
  "payload body = ret (read_prop body ''data'')"

definition payload_field :: "string \<Rightarrow> jsval \<Rightarrow> jsval io" where
  "payload_field k body =
     ret (case read_prop body ''data'' of Inl e \<Rightarrow> Inl e | Inr d \<Rightarrow> read_prop d k)"

definition checkHealth :: "AxiosInstance \<Rightarrow> network \<Rightarrow> jsval io" where
  "checkHealth api net = guarded (and_then (send api net GET ''/health'' None) payload)"

definition createEntities :: "AxiosInstance \<Rightarrow> network \<Rightarrow> jsval \<Rightarrow> jsval io" where
  "createEntities api net entities =
     guarded (and_then (send api net POST ''/api/entities'' (Some (JObj [(''entities'', entities)])))
                (payload_field ''created''))"

definition createRelations :: "AxiosInstance \<Rightarrow> network \<Rightarrow> jsval \<Rightarrow> jsval io" where
  "createRelations api net relations =
     guarded (and_then (send api net POST ''/api/relations'' (Some (JObj [(''relations'', relations)])))
                (payload_field ''created''))"

definition addObservations :: "AxiosInstance \<Rightarrow> network \<Rightarrow> jsval \<Rightarrow> jsval io" where
  "addObservations api net observations =
     guarded (and_then (send api net POST ''/api/observations'' (Some (JObj [(''observations'', observations)])))
                (payload_field ''updates''))"

text \<open>The three deletions await the call and return nothing, that is \<open>undefined\<close>.\<close>

definition deleteEntities :: "AxiosInstance \<Rightarrow> network \<Rightarrow> jsval \<Rightarrow> jsval io" where
  "deleteEntities api net entityNames =
     guarded (and_then (send api net DELETE ''/api/entities'' (Some (JObj [(''entityNames'', entityNames)])))
                (\<lambda>body. ret (Inr JUndefined)))"

definition deleteObservations :: "AxiosInstance \<Rightarrow> network \<Rightarrow> jsval \<Rightarrow> jsval io" where
  "deleteObservations api net deletions =
     guarded (and_then (send api net DELETE ''/api/observations'' (Some (JObj [(''deletions'', deletions)])))
                (\<lambda>body. ret (Inr JUndefined)))"

definition deleteRelations :: "AxiosInstance \<Rightarrow> network \<Rightarrow> jsval \<Rightarrow> jsval io" where
  "deleteRelations api net relations =
     guarded (and_then (send api net DELETE ''/api/relations'' (Some (JObj [(''relations'', relations)])))
                (\<lambda>body. ret (Inr JUndefined)))"

definition readGraph :: "AxiosInstance \<Rightarrow> network \<Rightarrow> jsval io" where
  "readGraph api net = guarded (and_then (send api net GET ''/api/graph'' None) payload)"

definition searchNodes :: "AxiosInstance \<Rightarrow> network \<Rightarrow> jsval \<Rightarrow> jsval io" where
  "searchNodes api net query =
     guarded (and_then (send api net GET (''/api/search?query='' @ encodeURIComponent query) None)
                (payload_field ''graph''))"

definition openNodes :: "AxiosInstance \<Rightarrow> network \<Rightarrow> jsval \<Rightarrow> jsval io" where
  "openNodes api net names =
     guarded (and_then (send api net POST ''/api/nodes'' (Some (JObj [(''names'', names)])))
                (payload_field ''graph''))"

definition getPatterns_url :: "jsval \<Rightarrow> string" where
  "getPatterns_url category =
     (if truthy category then ''/api/patterns?category='' @ ToString category else ''/api/patterns'')"

definition getPatterns :: "AxiosInstance \<Rightarrow> network \<Rightarrow> jsval \<Rightarrow> jsval io" where
  "getPatterns api net category =
     guarded (and_then (send api net GET (getPatterns_url category) None) (payload_field ''patterns''))"

definition getTemporalGraph :: "AxiosInstance \<Rightarrow> network \<Rightarrow> jsval \<Rightarrow> jsval \<Rightarrow> jsval io" where
  "getTemporalGraph api net startDate endDate =
     guarded (and_then
       (send api net GET (''/api/graph/temporal?startDate='' @ encodeURIComponent startDate
                            @ ''&endDate='' @ encodeURIComponent endDate) None)
       (payload_field ''graph''))"

text \<open>The \<^verbatim>\<open>const url = maxDepth ? ... : ...\<close> of \<^verbatim>\<open>findPath\<close>.\<close>

definition findPath_url :: "jsval \<Rightarrow> jsval \<Rightarrow> jsval \<Rightarrow> string" where
  "findPath_url from to maxDepth =
     (if truthy maxDepth
      then ''/api/graph/path?from='' @ encodeURIComponent from @ ''&to='' @ encodeURIComponent to
             @ ''&maxDepth='' @ ToString maxDepth
      else ''/api/graph/path?from='' @ encodeURIComponent from @ ''&to='' @ encodeURIComponent to)"

definition findPath :: "AxiosInstance \<Rightarrow> network \<Rightarrow> jsval \<Rightarrow> jsval \<Rightarrow> jsval \<Rightarrow> jsval io" where
  "findPath api net from to maxDepth =
     guarded (and_then (send api net GET (findPath_url from to maxDepth) None) (payload_field ''path''))"

section \<open>The tool registry and the dispatcher\<close>

text \<open>
  \<^verbatim>\<open>src/memory-mongo/index.ts\<close> holds the server twice; the model follows the later one,
  with thirteen tools (the earlier one has nine of them and the same handler and
  \<^verbatim>\<open>handleError\<close>). These are the names the list-tools handler returns, in its order;
  the descriptors are data only.
\<close>

definition tool_names :: "string list" where
  "tool_names =
     [''check_health'', ''create_entities'', ''create_relations'', ''add_observations'',
      ''delete_entities'', ''delete_observations'', ''delete_relations'', ''read_graph'',
      ''search_nodes'', ''open_nodes'', ''get_patterns'', ''get_temporal_graph'', ''find_path'']"

text \<open>
  The response of a tool call (\<open>text_field\<close> is its \<^verbatim>\<open>text\<close>). \<open>isError\<close> is \<open>None\<close> when the
  property is absent. The
  text is what \<^verbatim>\<open>JSON.stringify\<close> returned, so it is \<open>None\<close> where that is \<open>undefined\<close>.
\<close>

record content_item =
  type :: string
  text_field :: "string option"

record envelope =
  content :: "content_item list"
  isError :: "bool option"

definition text_result :: "string option \<Rightarrow> envelope" where
  "text_result t = \<lparr> content = [\<lparr> type = ''text'', text_field = t \<rparr>], isError = None \<rparr>"

definition error_result :: "string \<Rightarrow> envelope" where
  "error_result t = \<lparr> content = [\<lparr> type = ''text'', text_field = Some t \<rparr>], isError = Some True \<rparr>"

text \<open>
  \<^verbatim>\<open>error instanceof Error\<close> and \<^verbatim>\<open>error.message\<close> together: the message of an
  \<^verbatim>\<open>Error\<close> instance, \<open>None\<close> for a value that is not one.
\<close>

fun Error_message :: "thrown \<Rightarrow> string option" where
  "Error_message (ErrorObj m) = Some m"
| "Error_message (AxiosError response m) = Some m"
| "Error_message (NonError v) = None"

text \<open>The \<^verbatim>\<open>catch (error)\<close> block of the call-tool handler.\<close>

definition catch_block :: "thrown \<Rightarrow> envelope" where
  "catch_block error =
     (case Error_message error of
        Some m \<Rightarrow> error_result (''Error: '' @ m)
      | None \<Rightarrow> error_result ''An unknown error occurred'')"

text \<open>
  \<^verbatim>\<open>return { content: [{ type: "text", text: JSON.stringify(await op, null, 2) }] }\<close> and
  \<^verbatim>\<open>await op; return { content: [{ type: "text", text: "..." }] }\<close>.
\<close>

definition as_json :: "jsval io \<Rightarrow> envelope io" where
  "as_json m = and_then m (\<lambda>v. ret (Inr (text_result (JSON_stringify v))))"

definition as_text :: "jsval io \<Rightarrow> string \<Rightarrow> envelope io" where
  "as_text m t = and_then m (\<lambda>v. ret (Inr (text_result (Some t))))"

text \<open>\<^verbatim>\<open>args.k\<close>, evaluated inside the \<^verbatim>\<open>try\<close> before the method is called.\<close>

definition arg :: "jsval \<Rightarrow> string \<Rightarrow> jsval io" where
  "arg args k = ret (read_prop args k)"

text \<open>The \<^verbatim>\<open>switch (name)\<close>.\<close>

definition switch :: "AxiosInstance \<Rightarrow> network \<Rightarrow> string \<Rightarrow> jsval \<Rightarrow> envelope io" where
  "switch api net name args =
     (if name = ''check_health'' then as_json (checkHealth api net)
      else if name = ''create_entities'' then
        as_json (and_then (arg args ''entities'') (createEntities api net))
      else if name = ''create_relations'' then
        as_json (and_then (arg args ''relations'') (createRelations api net))
      else if name = ''add_observations'' then
        as_json (and_then (arg args ''observations'') (addObservations api net))
      else if name = ''delete_entities'' then
        as_text (and_then (arg args ''entityNames'') (deleteEntities api net))
          ''Entities deleted successfully''
      else if name = ''delete_observations'' then
        as_text (and_then (arg args ''deletions'') (deleteObservations api net))
          ''Observations deleted successfully''
      else if name = ''delete_relations'' then
        as_text (and_then (arg args ''relations'') (deleteRelations api net))
          ''Relations deleted successfully''
      else if name = ''read_graph'' then as_json (readGraph api net)
      else if name = ''search_nodes'' then
        as_json (and_then (arg args ''query'') (searchNodes api net))
      else if name = ''open_nodes'' then
        as_json (and_then (arg args ''names'') (openNodes api net))
      else if name = ''get_patterns'' then
        as_json (and_then (arg args ''category'') (getPatterns api net))
      else if name = ''get_temporal_graph'' then
        as_json (and_then (arg args ''startDate'') (\<lambda>startDate.
                 and_then (arg args ''endDate'') (\<lambda>endDate.
                 getTemporalGraph api net startDate endDate)))
      else if name = ''find_path'' then
        as_json (and_then (arg args ''from'') (\<lambda>from.
                 and_then (arg args ''to'') (\<lambda>to.
                 and_then (arg args ''maxDepth'') (\<lambda>maxDepth.
                 findPath api net from to maxDepth))))
      else ret (Inl (ErrorObj (''Unknown tool: '' @ name))))"

text \<open>
  The call-tool handler: \<open>Inl\<close> is a failure raised out of the handler, \<open>Inr\<close> the response
  it returns. The check of \<open>args\<close> stands before the \<^verbatim>\<open>try\<close>.
\<close>

definition CallTool_handler :: "AxiosInstance \<Rightarrow> network \<Rightarrow> string \<Rightarrow> jsval \<Rightarrow> envelope io" where
  "CallTool_handler api net name args =
     (if \<not> truthy args then ret (Inl (ErrorObj (''No arguments provided for tool: '' @ name)))
      else try_catch (switch api net name args) (\<lambda>error. ret (Inr (catch_block error))))"

section \<open>Loading the module\<close>

text \<open>
  What the top level of the module has built: the manager, the server object and the
  request handlers registered on it. Loading runs the statements in order and stops at
  the first \<^verbatim>\<open>throw\<close>, which ends the process.
\<close>

record module_state =
  knowledgeGraphManager :: "AxiosInstance option"
  server :: "(string \<times> string) option"
  request_handlers :: "string list"

definition nothing_built :: module_state where
  "nothing_built = \<lparr> knowledgeGraphManager = None, server = None, request_handlers = [] \<rparr>"

definition load_module :: "environment \<Rightarrow> thrown option \<times> module_state" where
  "load_module env =
     (let API_KEY = env_value (MEMORY_API_KEY env);
          base = API_BASE_URL env
      in if \<not> truthy API_KEY
         then (Some (ErrorObj ''MEMORY_API_KEY environment variable is required''), nothing_built)
         else (None,
               \<lparr> knowledgeGraphManager = Some (KnowledgeGraphManager (ToString API_KEY) base),
                 server = Some (''memory-mongo-server'', ''1.0.0''),
                 request_handlers = [''tools/list'', ''tools/call''] \<rparr>))"

text \<open>
  A tool call reaches the handler only through the registration on the server object;
  \<open>None\<close> is a call that nothing serves.
\<close>

definition serve_call :: "module_state \<Rightarrow> network \<Rightarrow> string \<Rightarrow> jsval \<Rightarrow> envelope io option" where
  "serve_call st net name args =
     (case (server st, knowledgeGraphManager st) of
        (Some srv, Some api) \<Rightarrow>
          (if ''tools/call'' \<in> set (request_handlers st)
           then Some (CallTool_handler api net name args) else None)
      | _ \<Rightarrow> None)"

text \<open>
  The requests sent while the process serves a sequence of tool calls, each with the
  network as it answers at that time.
\<close>

fun serve :: "module_state \<Rightarrow> (network \<times> string \<times> jsval) list \<Rightarrow> request list" where
  "serve st [] = []"
| "serve st ((net, name, args) # calls) =
     (case serve_call st net name args of
        None \<Rightarrow> []
      | Some (r, log) \<Rightarrow> log @ serve st calls)"

section \<open>The operations of the facade, enumerated\<close>

datatype operation =
    CheckHealth
  | CreateEntities jsval
  | CreateRelations jsval
  | AddObservations jsval
  | DeleteEntities jsval
  | DeleteObservations jsval
  | DeleteRelations jsval
  | ReadGraph
  | SearchNodes jsval
  | OpenNodes jsval
  | GetPatterns jsval
  | GetTemporalGraph jsval jsval
  | FindPath jsval jsval jsval

fun invoke :: "AxiosInstance \<Rightarrow> network \<Rightarrow> operation \<Rightarrow> jsval io" where
  "invoke api net CheckHealth = checkHealth api net"
| "invoke api net (CreateEntities entities) = createEntities api net entities"
| "invoke api net (CreateRelations relations) = createRelations api net relations"
| "invoke api net (AddObservations observations) = addObservations api net observations"
| "invoke api net (DeleteEntities entityNames) = deleteEntities api net entityNames"
| "invoke api net (DeleteObservations deletions) = deleteObservations api net deletions"
| "invoke api net (DeleteRelations relations) = deleteRelations api net relations"
| "invoke api net ReadGraph = readGraph api net"
| "invoke api net (SearchNodes query) = searchNodes api net query"
| "invoke api net (OpenNodes names) = openNodes api net names"
| "invoke api net (GetPatterns category) = getPatterns api net category"
| "invoke api net (GetTemporalGraph startDate endDate) = getTemporalGraph api net startDate endDate"
| "invoke api net (FindPath from to maxDepth) = findPath api net from to maxDepth"

text \<open>
  The operation the \<^verbatim>\<open>switch\<close> calls for a tool name, with the argument fields as they
  are read from the argument object, and the fixed text the three deletions answer with.
\<close>

definition selected_operation :: "string \<Rightarrow> jsval \<Rightarrow> operation option" where
  "selected_operation name args =
     (if name = ''check_health'' then Some CheckHealth
      else if name = ''create_entities'' then Some (CreateEntities (read_prop_opt args ''entities''))
      else if name = ''create_relations'' then Some (CreateRelations (read_prop_opt args ''relations''))
      else if name = ''add_observations'' then Some (AddObservations (read_prop_opt args ''observations''))
      else if name = ''delete_entities'' then Some (DeleteEntities (read_prop_opt args ''entityNames''))
      else if name = ''delete_observations'' then Some (DeleteObservations (read_prop_opt args ''deletions''))
      else if name = ''delete_relations'' then Some (DeleteRelations (read_prop_opt args ''relations''))
      else if name = ''read_graph'' then Some ReadGraph
      else if name = ''search_nodes'' then Some (SearchNodes (read_prop_opt args ''query''))
      else if name = ''open_nodes'' then Some (OpenNodes (read_prop_opt args ''names''))
      else if name = ''get_patterns'' then Some (GetPatterns (read_prop_opt args ''category''))
      else if name = ''get_temporal_graph'' then
        Some (GetTemporalGraph (read_prop_opt args ''startDate'') (read_prop_opt args ''endDate''))
      else if name = ''find_path'' then
        Some (FindPath (read_prop_opt args ''from'') (read_prop_opt args ''to'')
                (read_prop_opt args ''maxDepth''))
      else None)"

definition fixed_text :: "string \<Rightarrow> string option" where
  "fixed_text name =
     (if name = ''delete_entities'' then Some ''Entities deleted successfully''
      else if name = ''delete_observations'' then Some ''Observations deleted successfully''
      else if name = ''delete_relations'' then Some ''Relations deleted successfully''
      else None)"

text \<open>The text of a successful response: the fixed one, or the result serialised.\<close>

definition success_text :: "string \<Rightarrow> jsval \<Rightarrow> string option" where
  "success_text name v = (case fixed_text name of Some t \<Rightarrow> Some t | None \<Rightarrow> JSON_stringify v)"

section \<open>Reading a request URL\<close>



section \<open>Networks and a client to evaluate with\<close>

definition replies :: "jsval \<Rightarrow> network" where
  "replies body r = Inr body"

definition rejects :: "thrown \<Rightarrow> network" where
  "rejects e r = Inl e"

definition example_api :: AxiosInstance where
  "example_api = KnowledgeGraphManager ''secret'' ''http://localhost:3000''"

text \<open>The body the API documentation gives for \<^verbatim>\<open>GET /health\<close>.\<close>

definition documented_health_body :: jsval where
  "documented_health_body =
     JObj [(''status'', JStr ''ok''),
           (''features'', JObj [(''base'', JBool True), (''temporal'', JBool True),
                                (''patterns'', JBool True), (''pathfinding'', JBool True)])]"


definition rejection_404 :: thrown where
  "rejection_404 =
     AxiosError (Some (JObj [(''success'', JBool False), (''error'', JStr ''No path found'')]))
       ''Request failed with status code 404''"

section \<open>The facade sends one request and fails only with an \<^verbatim>\<open>Error\<close>\<close>

lemma and_then_ret [simp]: "and_then (ret (Inr v)) f = f v"
  by (simp add: and_then_def ret_def split: prod.splits)

lemma arg_truthy: "truthy args \<Longrightarrow> arg args k = ret (Inr (read_prop_opt args k))"
  by (cases args) (simp_all add: arg_def read_prop_def read_prop_opt_def)

lemma guarded_send:
  assumes "\<And>body. snd (k body) = []"
  shows "guarded (and_then (send api net m u d) k) =
     (case net \<lparr> baseURL = baseURL api, headers = headers api, verb = m, url = u, data = d \<rparr> of
        Inl e \<Rightarrow> Inl (handleError e)
      | Inr body \<Rightarrow> (case fst (k body) of Inl e \<Rightarrow> Inl (handleError e) | Inr v \<Rightarrow> Inr v),
      [\<lparr> baseURL = baseURL api, headers = headers api, verb = m, url = u, data = d \<rparr>])"
  using assms [of "projr (net \<lparr> baseURL = baseURL api, headers = headers api, verb = m, url = u, data = d \<rparr>)"]
  by (auto simp add: guarded_def try_catch_def and_then_def send_def ret_def Let_def
      split: prod.splits sum.splits)

lemmas facade_defs =
  checkHealth_def createEntities_def createRelations_def addObservations_def
  deleteEntities_def deleteObservations_def deleteRelations_def readGraph_def
  searchNodes_def openNodes_def getPatterns_def getTemporalGraph_def findPath_def
  payload_def payload_field_def ret_def



lemma invoke_network_failure:
  "snd (invoke api net op) = [r] \<Longrightarrow> net r = Inl e \<Longrightarrow> fst (invoke api net op) = Inl (handleError e)"
  by (cases op) (auto simp add: guarded_send facade_defs)



section \<open>The switch calls the selected operation\<close>

lemma selected_operation_None: "selected_operation name args = None \<longleftrightarrow> name \<notin> set tool_names"
  by (simp add: selected_operation_def tool_names_def)

lemma switch_unknown:
  "name \<notin> set tool_names \<Longrightarrow> switch api net name args = ret (Inl (ErrorObj (''Unknown tool: '' @ name)))"
  by (simp add: switch_def tool_names_def)

lemma switch_selected:
  assumes "truthy args" and "selected_operation name args = Some op"
  shows "switch api net name args =
           and_then (invoke api net op) (\<lambda>v. ret (Inr (text_result (success_text name v))))"
  using assms
  by (auto simp add: switch_def selected_operation_def arg_truthy as_json_def as_text_def
      success_text_def fixed_text_def split: if_splits)

lemma handler_selected:
  assumes "truthy args" and "selected_operation name args = Some op"
  shows "CallTool_handler api net name args =
           (case fst (invoke api net op) of
              Inl e \<Rightarrow> Inr (catch_block e)
            | Inr v \<Rightarrow> Inr (text_result (success_text name v)),
            snd (invoke api net op))"
  using assms(1)
  by (simp add: CallTool_handler_def switch_selected [OF assms] try_catch_def and_then_def ret_def
      split: prod.splits sum.splits)

section \<open>The dispatcher's guard on the argument object\<close>

text \<open>
  C1 (as amended). A tool call whose argument object is absent (\<open>undefined\<close>, and the same
  for \<open>null\<close>) makes the call-tool handler fail with an \<^verbatim>\<open>Error\<close> whose message is
  \<^verbatim>\<open>No arguments provided for tool: \<close> followed by the tool name. The guard stands before
  the \<^verbatim>\<open>try\<close>, so the failure is raised out of the handler instead of being turned into
  an \<^verbatim>\<open>isError\<close> response, and no request has been sent.
\<close>

theorem absent_arguments_raise:
  "CallTool_handler api net name JUndefined =
     (Inl (ErrorObj (''No arguments provided for tool: '' @ name)), []) \<and>
   CallTool_handler api net name JNull =
     (Inl (ErrorObj (''No arguments provided for tool: '' @ name)), [])"
  by (simp add: CallTool_handler_def ret_def)

text \<open>
  Against C1 as stated: for \<^verbatim>\<open>read_graph\<close> called without an argument object the handler
  returns no response at all, so not the \<^verbatim>\<open>isError\<close> response either.
\<close>

theorem absent_arguments_no_envelope:
  "fst (CallTool_handler example_api (replies JNull) ''read_graph'' JUndefined) =
     Inl (ErrorObj ''No arguments provided for tool: read_graph'') \<and>
   fst (CallTool_handler example_api (replies JNull) ''read_graph'' JUndefined) \<noteq>
     Inr (error_result ''Error: No arguments provided for tool: read_graph'')"
  by (simp add: CallTool_handler_def ret_def)

section \<open>\<^verbatim>\<open>handleError\<close>\<close>




section \<open>Unknown tools\<close>

text \<open>
  C3. A call with an argument object and a name that is none of the thirteen registered
  tool names returns the response \<^verbatim>\<open>Error: Unknown tool: \<close> followed by the name, with
  \<^verbatim>\<open>isError: true\<close>. The handler returns it (nothing is raised out of the handler), and
  no request is sent.
\<close>

theorem unknown_tool_envelope:
  assumes "truthy args" and "name \<notin> set tool_names"
  shows "length tool_names = 13 \<and>
         CallTool_handler api net name args =
           (Inr \<lparr> content = [\<lparr> type = ''text'', text_field = Some (''Error: Unknown tool: '' @ name) \<rparr>],
                   isError = Some True \<rparr>, [])"
  using assms
  by (simp add: CallTool_handler_def switch_unknown try_catch_def ret_def catch_block_def
      error_result_def tool_names_def)

theorem unknown_tool_envelope_witness:
  "truthy (JObj []) \<and> ''drop_database'' \<notin> set tool_names \<and>
   CallTool_handler example_api (replies JNull) ''drop_database'' (JObj []) =
     (Inr \<lparr> content = [\<lparr> type = ''text'', text_field = Some ''Error: Unknown tool: drop_database'' \<rparr>],
             isError = Some True \<rparr>, [])"
  using unknown_tool_envelope [of "JObj []" "''drop_database''" example_api "replies JNull"]
  by (simp add: tool_names_def)

section \<open>The URL of \<^verbatim>\<open>findPath\<close>\<close>













lemma findPath_request:
  "snd (findPath api net from to maxDepth) =
     [\<lparr> baseURL = baseURL api, headers = headers api, verb = GET,
        url = findPath_url from to maxDepth, data = None \<rparr>]"
  by (simp add: findPath_def guarded_send payload_field_def ret_def)

section \<open>What the handler returns and sends\<close>

lemma handler_of_switch:
  assumes "truthy args"
  shows "fst (CallTool_handler api net name args) =
           (case fst (switch api net name args) of Inl e \<Rightarrow> Inr (catch_block e) | Inr env \<Rightarrow> Inr env)"
  using assms
  by (cases "switch api net name args")
     (auto simp add: CallTool_handler_def try_catch_def ret_def split: sum.splits)

text \<open>
  A call that succeeds answers with one text item and no \<open>isError\<close>; the text is the
  fixed one of a deletion, or whatever \<^verbatim>\<open>JSON.stringify\<close> made of the result.
\<close>

lemma handler_success:
  assumes "truthy args" and "selected_operation name args = Some op"
    and "fst (invoke api net op) = Inr v"
  shows "fst (CallTool_handler api net name args) =
           Inr \<lparr> content = [\<lparr> type = ''text'', text_field = success_text name v \<rparr>], isError = None \<rparr>"
  using assms(3) by (simp add: handler_selected [OF assms(1,2)] text_result_def)

lemma handler_failure:
  assumes "truthy args" and "selected_operation name args = Some op"
    and "fst (invoke api net op) = Inl e"
  shows "fst (CallTool_handler api net name args) = Inr (catch_block e)"
  using assms(3) by (simp add: handler_selected [OF assms(1,2)])



section \<open>The text of a successful response\<close>

text \<open>
  C4 fails on \<^verbatim>\<open>check_health\<close> against the health endpoint as the API documentation
  describes it. The body is \<^verbatim>\<open>{status, features}\<close> with no \<^verbatim>\<open>data\<close> property, so
  \<^verbatim>\<open>checkHealth\<close> returns \<open>undefined\<close>, \<^verbatim>\<open>JSON.stringify\<close> returns \<open>undefined\<close> too, and the
  response, which has no \<open>isError\<close>, has no text either: it is not the result
  pretty-printed as JSON text.
\<close>

theorem health_text_missing:
  "CallTool_handler example_api (replies documented_health_body) ''check_health'' (JObj []) =
     (Inr \<lparr> content = [\<lparr> type = ''text'', text_field = None \<rparr>], isError = None \<rparr>,
      [\<lparr> baseURL = ''http://localhost:3000'',
         headers = [(''Authorization'', ''Bearer secret''), (''Content-Type'', ''application/json'')],
         verb = GET, url = ''/health'', data = None \<rparr>])"
  by (simp add: handler_selected [of _ _ CheckHealth] selected_operation_def checkHealth_def
      guarded_send payload_def ret_def replies_def documented_health_body_def read_prop_def
      success_text_def fixed_text_def JSON_stringify_def text_result_def example_api_def
      KnowledgeGraphManager_def)

section \<open>\<^verbatim>\<open>maxDepth\<close> in the request of \<^verbatim>\<open>findPath\<close>\<close>




section \<open>The credential at load time\<close>

text \<open>
  C6 (as amended). When \<^verbatim>\<open>MEMORY_API_KEY\<close> is not set, or is set to the empty string,
  loading the module throws before the manager and the server object are constructed
  and before a handler is registered, so no tool call is ever served. When it is set to
  a non-empty string, loading goes on: the manager is constructed with that credential,
  the server object is constructed, both handlers are registered, and a tool call
  reaches the call-tool handler.
\<close>

theorem credential_checked_at_load:
  "(MEMORY_API_KEY env = None \<or> MEMORY_API_KEY env = Some [] \<longrightarrow>
      load_module env =
        (Some (ErrorObj ''MEMORY_API_KEY environment variable is required''), nothing_built) \<and>
      serve_call (snd (load_module env)) net name args = None \<and>
      serve (snd (load_module env)) calls = []) \<and>
   (MEMORY_API_KEY env = Some key \<and> key \<noteq> [] \<longrightarrow>
      load_module env =
        (None,
         \<lparr> knowledgeGraphManager = Some (KnowledgeGraphManager key (API_BASE_URL env)),
           server = Some (''memory-mongo-server'', ''1.0.0''),
           request_handlers = [''tools/list'', ''tools/call''] \<rparr>) \<and>
      serve_call (snd (load_module env)) net name args =
        Some (CallTool_handler (KnowledgeGraphManager key (API_BASE_URL env)) net name args))"
proof -
  have s: "serve nothing_built calls = []"
    by (cases calls) (auto simp add: serve_call_def nothing_built_def)
  show ?thesis
    using s by (auto simp add: load_module_def env_value_def Let_def serve_call_def nothing_built_def)
qed

text \<open>The theorem with the variable not set, and with it set to \<^verbatim>\<open>secret\<close>.\<close>

theorem credential_checked_at_load_witness:
  "MEMORY_API_KEY \<lparr> MEMORY_API_KEY = None, MEMORY_API_URL = None \<rparr> = None \<and>
   load_module \<lparr> MEMORY_API_KEY = None, MEMORY_API_URL = None \<rparr> =
     (Some (ErrorObj ''MEMORY_API_KEY environment variable is required''), nothing_built) \<and>
   MEMORY_API_KEY \<lparr> MEMORY_API_KEY = Some ''secret'', MEMORY_API_URL = None \<rparr> = Some ''secret'' \<and>
   load_module \<lparr> MEMORY_API_KEY = Some ''secret'', MEMORY_API_URL = None \<rparr> =
     (None,
      \<lparr> knowledgeGraphManager = Some example_api,
        server = Some (''memory-mongo-server'', ''1.0.0''),
        request_handlers = [''tools/list'', ''tools/call''] \<rparr>)"
proof -
  let ?absent = "\<lparr> MEMORY_API_KEY = None, MEMORY_API_URL = None \<rparr>"
  let ?present = "\<lparr> MEMORY_API_KEY = Some ''secret'', MEMORY_API_URL = None \<rparr>"
  have a: "MEMORY_API_KEY ?absent = None" and p: "MEMORY_API_KEY ?present = Some ''secret''"
    and n: "''secret'' \<noteq> []"
    by simp_all
  have b: "API_BASE_URL ?present = ''http://localhost:3000''"
    by (simp add: API_BASE_URL_def env_value_def)
  from a credential_checked_at_load [where env = ?absent and key = "[]" and net = "replies JNull"
      and name = "''read_graph''" and args = "JObj []" and calls = "[]"]
  have 1: "load_module ?absent =
     (Some (ErrorObj ''MEMORY_API_KEY environment variable is required''), nothing_built)"
    by blast
  from p n credential_checked_at_load [where env = ?present and key = "''secret''" and net = "replies JNull"
      and name = "''read_graph''" and args = "JObj []" and calls = "[]"]
  have "load_module ?present =
     (None,
      \<lparr> knowledgeGraphManager = Some (KnowledgeGraphManager ''secret'' (API_BASE_URL ?present)),
        server = Some (''memory-mongo-server'', ''1.0.0''),
        request_handlers = [''tools/list'', ''tools/call''] \<rparr>)"
    by blast
  then have 2: "load_module ?present =
     (None,
      \<lparr> knowledgeGraphManager = Some example_api,
        server = Some (''memory-mongo-server'', ''1.0.0''),
        request_handlers = [''tools/list'', ''tools/call''] \<rparr>)"
    by (simp only: b example_api_def)
  from a p 1 2 show ?thesis by blast
qed

text \<open>
  Against C6 as stated: with \<^verbatim>\<open>MEMORY_API_KEY\<close> present in the environment but empty,
  loading fails all the same.
\<close>

theorem empty_credential_is_fatal:
  "MEMORY_API_KEY \<lparr> MEMORY_API_KEY = Some '''', MEMORY_API_URL = None \<rparr> \<noteq> None \<and>
   load_module \<lparr> MEMORY_API_KEY = Some '''', MEMORY_API_URL = None \<rparr> =
     (Some (ErrorObj ''MEMORY_API_KEY environment variable is required''), nothing_built)"
  by (simp add: load_module_def env_value_def)

section \<open>The headers and the base address of every request\<close>



section \<open>Malformed arguments\<close>



section \<open>A falsy \<^verbatim>\<open>maxDepth\<close>\<close>



section \<open>The text of an error response\<close>

text \<open>
  C10. The \<^verbatim>\<open>catch\<close> block of the handler answers a failure that is an \<^verbatim>\<open>Error\<close> instance
  with the text \<^verbatim>\<open>Error: \<close> followed by its message, and any other failure with the text
  \<^verbatim>\<open>An unknown error occurred\<close>, in both cases with \<^verbatim>\<open>isError: true\<close>. For a call with
  an argument object, a failure inside the \<^verbatim>\<open>switch\<close> is answered by that block, and a
  response that has \<open>isError\<close> comes from nowhere else. So a rejection of the service with
  a non-empty \<^verbatim>\<open>error\<close> string reaches the host as \<^verbatim>\<open>Error: \<close> followed by that string.
\<close>

theorem error_envelope_text:
  "(Error_message e = Some msg \<longrightarrow>
      catch_block e = \<lparr> content = [\<lparr> type = ''text'', text_field = Some (''Error: '' @ msg) \<rparr>],
                        isError = Some True \<rparr>) \<and>
   (Error_message e = None \<longrightarrow>
      catch_block e = \<lparr> content = [\<lparr> type = ''text'', text_field = Some ''An unknown error occurred'' \<rparr>],
                        isError = Some True \<rparr>) \<and>
   (truthy args \<and> fst (switch api net name args) = Inl e \<longrightarrow>
      fst (CallTool_handler api net name args) = Inr (catch_block e)) \<and>
   (truthy args \<and> fst (CallTool_handler api net name args) = Inr env \<and> isError env \<noteq> None \<longrightarrow>
      (\<exists>x. fst (switch api net name args) = Inl x \<and> env = catch_block x)) \<and>
   (truthy args \<and> selected_operation name args = Some op \<and> snd (invoke api net op) = [r] \<and>
    net r = Inl (AxiosError (Some body) m) \<and> read_prop_opt body ''error'' = JStr s \<and> s \<noteq> [] \<longrightarrow>
      fst (CallTool_handler api net name args) =
        Inr \<lparr> content = [\<lparr> type = ''text'', text_field = Some (''Error: '' @ s) \<rparr>],
              isError = Some True \<rparr>)"
proof -
  have a: "catch_block e = \<lparr> content = [\<lparr> type = ''text'', text_field = Some (''Error: '' @ msg) \<rparr>],
                        isError = Some True \<rparr>" if "Error_message e = Some msg"
    using that by (simp add: catch_block_def error_result_def)
  have b: "catch_block e = \<lparr> content = [\<lparr> type = ''text'', text_field = Some ''An unknown error occurred'' \<rparr>],
                        isError = Some True \<rparr>" if "Error_message e = None"
    using that by (simp add: catch_block_def error_result_def)
  have c: "fst (CallTool_handler api net name args) = Inr (catch_block e)"
    if "truthy args" and "fst (switch api net name args) = Inl e"
    using that by (simp add: handler_of_switch)
  have d: "\<exists>x. fst (switch api net name args) = Inl x \<and> env = catch_block x"
    if t: "truthy args" and h: "fst (CallTool_handler api net name args) = Inr env" and i: "isError env \<noteq> None"
  proof (cases "fst (switch api net name args)")
    case (Inl x)
    with t h show ?thesis
      by (simp add: handler_of_switch)
  next
    case (Inr ok)
    with t h have ok: "env = ok"
      by (simp add: handler_of_switch)
    have "isError ok = None"
    proof (cases "selected_operation name args")
      case None
      then have "name \<notin> set tool_names" by (simp add: selected_operation_None)
      with Inr show ?thesis by (simp add: switch_unknown ret_def)
    next
      case (Some op')
      with t Inr show ?thesis
        by (auto simp add: switch_selected and_then_def ret_def text_result_def
            split: prod.splits sum.splits)
    qed
    with ok i show ?thesis by simp
  qed
  have f: "fst (CallTool_handler api net name args) =
        Inr \<lparr> content = [\<lparr> type = ''text'', text_field = Some (''Error: '' @ s) \<rparr>],
              isError = Some True \<rparr>"
    if "truthy args" and "selected_operation name args = Some op" and "snd (invoke api net op) = [r]"
      and "net r = Inl (AxiosError (Some body) m)" and "read_prop_opt body ''error'' = JStr s" and "s \<noteq> []"
  proof -
    from that(3,4) have "fst (invoke api net op) = Inl (handleError (AxiosError (Some body) m))"
      by (rule invoke_network_failure)
    moreover from that(5,6) have "handleError (AxiosError (Some body) m) = ErrorObj s"
      by (simp add: handleError_def)
    ultimately show ?thesis
      using that(1,2) by (simp add: handler_selected catch_block_def error_result_def)
  qed
  from a b c d f show ?thesis by blast
qed

text \<open>
  The theorem for an \<^verbatim>\<open>Error\<close>, for a thrown string, and for \<^verbatim>\<open>find_path\<close> towards an
  entity that does not exist, the service answering with status 404.
\<close>

theorem error_envelope_text_witness:
  "Error_message (ErrorObj ''Unknown tool: nope'') = Some ''Unknown tool: nope'' \<and>
   catch_block (ErrorObj ''Unknown tool: nope'') =
     \<lparr> content = [\<lparr> type = ''text'', text_field = Some ''Error: Unknown tool: nope'' \<rparr>],
       isError = Some True \<rparr> \<and>
   Error_message (NonError (JStr ''timeout'')) = None \<and>
   catch_block (NonError (JStr ''timeout'')) =
     \<lparr> content = [\<lparr> type = ''text'', text_field = Some ''An unknown error occurred'' \<rparr>],
       isError = Some True \<rparr> \<and>
   fst (CallTool_handler example_api (rejects rejection_404) ''find_path''
          (JObj [(''from'', JStr ''Person1''), (''to'', JStr ''NoSuchEntity'')])) =
     Inr \<lparr> content = [\<lparr> type = ''text'', text_field = Some ''Error: No path found'' \<rparr>],
           isError = Some True \<rparr>"
proof -
  let ?args = "JObj [(''from'', JStr ''Person1''), (''to'', JStr ''NoSuchEntity'')]"
  let ?op = "FindPath (JStr ''Person1'') (JStr ''NoSuchEntity'') JUndefined"
  let ?body = "JObj [(''success'', JBool False), (''error'', JStr ''No path found'')]"
  let ?r = "\<lparr> baseURL = baseURL example_api, headers = headers example_api, verb = GET,
        url = findPath_url (JStr ''Person1'') (JStr ''NoSuchEntity'') JUndefined, data = None \<rparr>"
  have i1: "Error_message (ErrorObj ''Unknown tool: nope'') = Some ''Unknown tool: nope''"
    and i2: "Error_message (NonError (JStr ''timeout'')) = None"
    by simp_all
  from i1 error_envelope_text [where e = "ErrorObj ''Unknown tool: nope''" and msg = "''Unknown tool: nope''"]
  have 1: "catch_block (ErrorObj ''Unknown tool: nope'') =
     \<lparr> content = [\<lparr> type = ''text'', text_field = Some (''Error: '' @ ''Unknown tool: nope'') \<rparr>],
       isError = Some True \<rparr>"
    by blast
  from i2 error_envelope_text [where e = "NonError (JStr ''timeout'')"]
  have 2: "catch_block (NonError (JStr ''timeout'')) =
     \<lparr> content = [\<lparr> type = ''text'', text_field = Some ''An unknown error occurred'' \<rparr>],
       isError = Some True \<rparr>"
    by blast
  have t: "truthy ?args" by simp
  have o: "selected_operation ''find_path'' ?args = Some ?op"
    by (simp add: selected_operation_def read_prop_opt_def)
  have l: "snd (invoke example_api (rejects rejection_404) ?op) = [?r]"
    by (simp add: findPath_request)
  have n: "rejects rejection_404 ?r = Inl (AxiosError (Some ?body) ''Request failed with status code 404'')"
    by (simp add: rejects_def rejection_404_def)
  have p: "read_prop_opt ?body ''error'' = JStr ''No path found''" and q: "''No path found'' \<noteq> []"
    by (simp_all add: read_prop_opt_def)
  from t o l n p q
    error_envelope_text [where args = ?args and name = "''find_path''" and op = ?op
      and api = example_api and net = "rejects rejection_404" and r = ?r and body = ?body
      and m = "''Request failed with status code 404''" and s = "''No path found''"]
  have 3: "fst (CallTool_handler example_api (rejects rejection_404) ''find_path'' ?args) =
     Inr \<lparr> content = [\<lparr> type = ''text'', text_field = Some (''Error: '' @ ''No path found'') \<rparr>],
           isError = Some True \<rparr>"
    by blast
  from i1 i2 1 2 3 show ?thesis by simp
qed

end
